theory Spec2Isabelle
  imports Complex_Main
begin

section \<open>Python values\<close>

text \<open>
  A Python \<open>float\<close> is an IEEE double. Its finite values are modelled by the real
  number they denote (rounding is not modelled, a literal such as \<open>0.8\<close> stands for
  the real 8/10); the three special values are kept apart, because the code tests
  for them.
\<close>

datatype fl = Finite real | PosInf | NegInf | NaN

text \<open>\<open>np.isnan\<close> and \<open>np.isinf\<close> on a scalar.\<close>

fun isnan :: "fl \<Rightarrow> bool" where
  "isnan NaN = True"
| "isnan _ = False"

fun isinf :: "fl \<Rightarrow> bool" where
  "isinf PosInf = True"
| "isinf NegInf = True"
| "isinf _ = False"

text \<open>Python's \<open>a < b\<close> and \<open>a > b\<close> on floats: every comparison with NaN is False.\<close>

fun fl_less :: "fl \<Rightarrow> fl \<Rightarrow> bool" where
  "fl_less (Finite a) (Finite b) = (a < b)"
| "fl_less (Finite a) PosInf = True"
| "fl_less NegInf (Finite b) = True"
| "fl_less NegInf PosInf = True"
| "fl_less _ _ = False"

definition fl_greater :: "fl \<Rightarrow> fl \<Rightarrow> bool" where
  "fl_greater a b = fl_less b a"

text \<open>
  The values a feature dictionary can hold. The annotation is \<open>Dict[str, float]\<close>;
  \<open>validate_features\<close> tests for \<open>int\<close> and \<open>float\<close> and also handles values that
  are not numbers, so ints (unbounded, as in Python; a \<open>bool\<close> is the int 0 or 1),
  strings and \<open>None\<close> are part of the model.
\<close>

datatype pyval = PyFloat fl | PyInt int | PyStr string | PyNone

datatype pytype = FloatType | IntType | StrType | NoneType

fun type_of :: "pyval \<Rightarrow> pytype" where
  "type_of (PyFloat _) = FloatType"
| "type_of (PyInt _) = IntType"
| "type_of (PyStr _) = StrType"
| "type_of PyNone = NoneType"

text \<open>
  A dictionary is the list of its items in iteration (insertion) order; a Python
  dictionary has no key twice, which \<open>wf_dict\<close> states. \<open>d[k]\<close> is \<open>map_of d k\<close>.
\<close>

type_synonym pydict = "(string \<times> pyval) list"

definition wf_dict :: "pydict \<Rightarrow> bool" where
  "wf_dict d = distinct (map fst d)"

definition keys :: "pydict \<Rightarrow> string set" where
  "keys d = set (map fst d)"

text \<open>
  Two library functions parse a string as a number: Python's builtin \<open>float()\<close> and
  numpy's conversion of a list element under \<open>dtype=np.float64\<close>. Neither is code of
  the repository; both are parameters. \<open>None\<close> stands for the exception they raise.
\<close>

record builtins =
  str_to_float :: "string \<Rightarrow> fl option"
  np_str_to_float :: "string \<Rightarrow> fl option"

section \<open>Errors\<close>

text \<open>
  One constructor for each \<open>raise\<close> of the source and each exception of the
  library calls the model covers. The three errors of \<open>validate_features\<close>, and
  \<open>ModelsNotLoaded\<close> and \<open>UnknownModelType\<close> of \<open>ModelPredictor.predict\<close>, are all
  Python \<open>ValueError\<close>s that differ in their message: the constructor records which
  message it is and the values formatted into it. The list of missing names is
  built from a Python set, so its order is not fixed: the model keeps the set.
  \<open>NumpyTypeError\<close> is the TypeError of \<open>np.isnan\<close> on a value it does not
  support, \<open>ArrayConversionError\<close> the ValueError and \<open>OverflowError\<close> the
  OverflowError of \<open>np.array\<close> on an element it cannot store as a float.
\<close>

datatype artifact = ScalerFile | LogisticRegressionFile | KnnFile | MetadataFile

datatype error =
    MissingFeatures "string set"
  | NotNumeric string pytype
  | InvalidValue string fl
  | NumpyTypeError
  | ArrayConversionError
  | OverflowError
  | KeyError string
  | IndexError
  | ModelsNotLoaded
  | UnknownModelType string
  | InvalidModelType string
  | FileNotFoundError artifact

fun is_ValueError :: "error \<Rightarrow> bool" where
  "is_ValueError NumpyTypeError = False"
| "is_ValueError OverflowError = False"
| "is_ValueError (KeyError _) = False"
| "is_ValueError IndexError = False"
| "is_ValueError (FileNotFoundError _) = False"
| "is_ValueError _ = True"

section \<open>preprocessing.py\<close>

text \<open>
  Lines 24 to 28 of \<open>validate_features\<close>: an int or a float is taken as it is, any
  other value goes through \<open>float(value)\<close>; \<open>None\<close> is the branch that raises "must
  be numeric" (\<open>float(None)\<close> raises TypeError).
\<close>

datatype number = IntNum int | FloatNum fl

fun numeric_value :: "builtins \<Rightarrow> pyval \<Rightarrow> number option" where
  "numeric_value env (PyFloat x) = Some (FloatNum x)"
| "numeric_value env (PyInt i) = Some (IntNum i)"
| "numeric_value env (PyStr s) = map_option FloatNum (str_to_float env s)"
| "numeric_value env PyNone = None"

text \<open>
  \<open>np.isnan\<close> and \<open>np.isinf\<close> take a Python int only when it fits one of numpy's
  64-bit integer types (int64 or uint64); there the answer is False. On any other
  int \<open>np.isnan\<close> raises TypeError.
\<close>

definition np_int_ok :: "int \<Rightarrow> bool" where
  "np_int_ok i = (- (2 ^ 63) \<le> i \<and> i < 2 ^ 64)"

text \<open>The loop of lines 23 to 31, over the items in iteration order.\<close>

fun check_values :: "builtins \<Rightarrow> pydict \<Rightarrow> error + unit" where
  "check_values env [] = Inr ()"
| "check_values env ((name, v) # items) =
     (case numeric_value env v of
        None \<Rightarrow> Inl (NotNumeric name (type_of v))
      | Some (IntNum i) \<Rightarrow>
          if np_int_ok i then check_values env items else Inl NumpyTypeError
      | Some (FloatNum x) \<Rightarrow>
          if isnan x \<or> isinf x then Inl (InvalidValue name x)
          else check_values env items)"

definition validate_features :: "builtins \<Rightarrow> pydict \<Rightarrow> string list \<Rightarrow> error + unit" where
  "validate_features env features required_features =
     (let missing_features = set required_features - keys features
      in if missing_features \<noteq> {} then Inl (MissingFeatures missing_features)
         else check_values env features)"

text \<open>\<open>[features[name] for name in required_features]\<close>: a missing key raises KeyError.\<close>

fun getitems :: "pydict \<Rightarrow> string list \<Rightarrow> error + pyval list" where
  "getitems features [] = Inr []"
| "getitems features (name # names) =
     (case map_of features name of
        None \<Rightarrow> Inl (KeyError name)
      | Some v \<Rightarrow>
          (case getitems features names of
             Inl e \<Rightarrow> Inl e
           | Inr vs \<Rightarrow> Inr (v # vs)))"

text \<open>
  \<open>np.array(values, dtype=np.float64)\<close>: a float is stored as it is, an int is
  converted to the nearest float (the model keeps its exact value) unless it is
  too large for a float, a string is parsed by numpy, \<open>None\<close> becomes NaN.
\<close>

fun np_float64 :: "builtins \<Rightarrow> pyval \<Rightarrow> error + fl" where
  "np_float64 env (PyFloat x) = Inr x"
| "np_float64 env (PyInt i) =
     (if \<bar>i\<bar> < 2 ^ 1024 - 2 ^ 970 then Inr (Finite (of_int i)) else Inl OverflowError)"
| "np_float64 env (PyStr s) =
     (case np_str_to_float env s of
        None \<Rightarrow> Inl ArrayConversionError
      | Some x \<Rightarrow> Inr x)"
| "np_float64 env PyNone = Inr NaN"

fun np_array :: "builtins \<Rightarrow> pyval list \<Rightarrow> error + fl list" where
  "np_array env [] = Inr []"
| "np_array env (v # vs) =
     (case np_float64 env v of
        Inl e \<Rightarrow> Inl e
      | Inr x \<Rightarrow>
          (case np_array env vs of
             Inl e \<Rightarrow> Inl e
           | Inr xs \<Rightarrow> Inr (x # xs)))"

text \<open>\<open>np.nan_to_num(a, nan=0.0, posinf=0.0, neginf=0.0)\<close>.\<close>

definition nan_to_num :: "fl list \<Rightarrow> fl list" where
  "nan_to_num a = map (\<lambda>x. if isnan x \<or> isinf x then Finite 0 else x) a"

definition preprocess_input :: "builtins \<Rightarrow> pydict \<Rightarrow> string list \<Rightarrow> error + fl list" where
  "preprocess_input env features required_features =
     (case validate_features env features required_features of
        Inl e \<Rightarrow> Inl e
      | Inr _ \<Rightarrow>
          (case getitems features required_features of
             Inl e \<Rightarrow> Inl e
           | Inr vs \<Rightarrow>
               (case np_array env vs of
                  Inl e \<Rightarrow> Inl e
                | Inr feature_array \<Rightarrow> Inr (nan_to_num feature_array))))"

section \<open>model_utils.py\<close>

text \<open>
  The fitted scaler and classifiers are objects of a statistics library, loaded from
  files: the model takes them as they are used, as functions. A scaler transforms a
  one-row matrix; a classifier's \<open>predict\<close> gives the label of that row, and its
  \<open>predict_proba\<close>, when the object has that attribute, the row of class
  probabilities. Every call of one of them is recorded, in order, in a list of
  calls that each function returns beside its result.
\<close>

record Scaler =
  transform :: "fl list \<Rightarrow> fl list"

record Classifier =
  clf_predict :: "fl list \<Rightarrow> int"
  predict_proba :: "(fl list \<Rightarrow> fl list) option"

datatype model_name = LogisticRegression | KNN

datatype call =
    ScalerTransform "fl list"
  | ClassifierPredict model_name "fl list"
  | ClassifierPredictProba model_name "fl list"

text \<open>
  Of the metadata document only the key \<open>feature_names\<close> is read by the functions
  modelled here; \<open>None\<close> is a document without that key.
\<close>

record Metadata =
  md_feature_names :: "string list option"

text \<open>
  A model directory: what each of the four files holds, \<open>None\<close> when the file does
  not exist.
\<close>

record model_directory =
  scaler_pkl :: "Scaler option"
  logistic_regression_pkl :: "Classifier option"
  knn_pkl :: "Classifier option"
  model_metadata_json :: "Metadata option"

record ModelPredictor =
  model_dir :: model_directory
  logistic_regression :: "Classifier option"
  knn :: "Classifier option"
  scaler :: "Scaler option"
  feature_names :: "string list"
  metadata :: Metadata

text \<open>\<open>ModelPredictor.__init__\<close>.\<close>

definition ModelPredictor_init :: "model_directory \<Rightarrow> ModelPredictor" where
  "ModelPredictor_init dir =
     \<lparr> model_dir = dir, logistic_regression = None, knn = None, scaler = None,
       feature_names = [], metadata = \<lparr> md_feature_names = None \<rparr> \<rparr>"

text \<open>
  \<open>ModelPredictor.load\<close> assigns the attributes of \<open>self\<close> one after the other and
  raises in between, so the model returns the object as the method leaves it, also
  when it raises.
\<close>

definition ModelPredictor_load :: "ModelPredictor \<Rightarrow> (error + unit) \<times> ModelPredictor" where
  "ModelPredictor_load self =
     (case scaler_pkl (model_dir self) of
        None \<Rightarrow> (Inl (FileNotFoundError ScalerFile), self)
      | Some sc \<Rightarrow>
          let self1 = self\<lparr> scaler := Some sc \<rparr> in
          (case logistic_regression_pkl (model_dir self) of
             None \<Rightarrow> (Inl (FileNotFoundError LogisticRegressionFile), self1)
           | Some lr \<Rightarrow>
               (case knn_pkl (model_dir self) of
                  None \<Rightarrow> (Inl (FileNotFoundError KnnFile), self1)
                | Some kn \<Rightarrow>
                    let self2 = self1\<lparr> logistic_regression := Some lr, knn := Some kn \<rparr> in
                    (case model_metadata_json (model_dir self) of
                       Some md \<Rightarrow>
                         (Inr (),
                          self2\<lparr> metadata := md,
                                 feature_names :=
                                   (case md_feature_names md of None \<Rightarrow> [] | Some ns \<Rightarrow> ns) \<rparr>)
                     | None \<Rightarrow> (Inl (FileNotFoundError MetadataFile), self2)))))"

text \<open>Lines 79 to 89 of \<open>ModelPredictor.predict\<close>, for the model selected.\<close>

definition run_model ::
  "model_name \<Rightarrow> Classifier \<Rightarrow> fl list \<Rightarrow> call list \<Rightarrow> (error + int \<times> fl) \<times> call list" where
  "run_model which model features_scaled calls =
     (let prediction = clf_predict model features_scaled;
          calls1 = calls @ [ClassifierPredict which features_scaled]
      in case predict_proba model of
           Some proba \<Rightarrow>
             (case proba features_scaled of
                p0 # p1 # _ \<Rightarrow>
                  (Inr (prediction, p1), calls1 @ [ClassifierPredictProba which features_scaled])
              | _ \<Rightarrow> (Inl IndexError, calls1 @ [ClassifierPredictProba which features_scaled]))
         | None \<Rightarrow>
             (Inr (prediction, if prediction = 1 then Finite (5/10) else Finite (5/10)), calls1))"

definition ModelPredictor_predict ::
  "ModelPredictor \<Rightarrow> fl list \<Rightarrow> string \<Rightarrow> (error + int \<times> fl) \<times> call list" where
  "ModelPredictor_predict self features model_type =
     (case (scaler self, logistic_regression self, knn self) of
        (Some sc, Some lr, Some kn) \<Rightarrow>
          let features_scaled = transform sc features;
              calls = [ScalerTransform features]
          in if model_type = ''knn'' then run_model KNN kn features_scaled calls
             else if model_type = ''logistic_regression''
               then run_model LogisticRegression lr features_scaled calls
             else (Inl (UnknownModelType model_type), calls)
      | _ \<Rightarrow> (Inl ModelsNotLoaded, []))"

definition load_models :: "model_directory \<Rightarrow> error + ModelPredictor" where
  "load_models dir =
     (case ModelPredictor_load (ModelPredictor_init dir) of
        (Inl e, _) \<Rightarrow> Inl e
      | (Inr _, predictor) \<Rightarrow> Inr predictor)"

section \<open>main.py\<close>

text \<open>
  The global \<open>predictor\<close> is \<open>None\<close> until \<open>startup_event\<close> has loaded the models; the
  endpoints take it as an argument. \<open>startup_event\<close> returns its value afterwards.
\<close>

definition startup_event :: "model_directory \<Rightarrow> (error + unit) \<times> ModelPredictor option" where
  "startup_event dir =
     (case load_models dir of
        Inl e \<Rightarrow> (Inl e, None)
      | Inr p \<Rightarrow> (Inr (), Some p))"

record PredictionRequest =
  req_features :: pydict
  req_model_type :: string

record PredictionResponse =
  prediction :: int
  probability :: fl
  model_used :: string
  confidence :: string
  timestamp :: string

record BatchPredictionRequest =
  batch_data :: "pydict list"
  batch_model_type :: string

record BatchPredictionResponse =
  predictions :: "int list"
  probabilities :: "fl list"
  batch_model_used :: string
  total_count :: int
  attack_count :: int
  normal_count :: int

text \<open>
  What an endpoint answers instead of a response: the framework's rejection of a
  request whose validator raised, or an \<open>HTTPException\<close> with its status code and
  detail (a fixed message, or a prefix followed by the text of the exception caught).
\<close>

datatype detail = Message string | ErrorText string error

datatype http_error = RequestValidationError error | HTTPException nat detail

text \<open>The validator of \<open>PredictionRequest\<close>, run when a request object is built.\<close>

definition validate_model_type :: "string \<Rightarrow> error + string" where
  "validate_model_type v =
     (if v \<notin> set [''knn'', ''logistic_regression''] then Inl (InvalidModelType v) else Inr v)"

definition new_PredictionRequest :: "pydict \<Rightarrow> string \<Rightarrow> error + PredictionRequest" where
  "new_PredictionRequest fs mt =
     (case validate_model_type mt of
        Inl e \<Rightarrow> Inl e
      | Inr v \<Rightarrow> Inr \<lparr> req_features = fs, req_model_type = v \<rparr>)"

text \<open>Lines 171 to 177 of \<open>predict\<close>.\<close>

definition confidence_level :: "fl \<Rightarrow> string" where
  "confidence_level p =
     (if fl_greater p (Finite (8/10)) \<or> fl_less p (Finite (2/10)) then ''High''
      else if fl_greater p (Finite (6/10)) \<or> fl_less p (Finite (4/10)) then ''Medium''
      else ''Low'')"

text \<open>
  The two \<open>except\<close> clauses of both endpoints: a ValueError becomes status 400 with
  its own text, any other exception status 500 with the endpoint's prefix.
\<close>

definition on_exception :: "string \<Rightarrow> error \<Rightarrow> http_error" where
  "on_exception prefix e =
     (if is_ValueError e then HTTPException 400 (ErrorText [] e)
      else HTTPException 500 (ErrorText prefix e))"

text \<open>The endpoint \<open>predict\<close>; \<open>now\<close> is the text of \<open>datetime.now().isoformat()\<close>.\<close>

definition predict ::
  "builtins \<Rightarrow> string \<Rightarrow> ModelPredictor option \<Rightarrow> PredictionRequest \<Rightarrow>
   (http_error + PredictionResponse) \<times> call list" where
  "predict env now predictor request =
     (case predictor of
        None \<Rightarrow> (Inl (HTTPException 503 (Message ''Models not loaded'')), [])
      | Some p \<Rightarrow>
          (case preprocess_input env (req_features request) (feature_names p) of
             Inl e \<Rightarrow> (Inl (on_exception ''Prediction error: '' e), [])
           | Inr features_array \<Rightarrow>
               (case ModelPredictor_predict p features_array (req_model_type request) of
                  (Inl e, calls) \<Rightarrow> (Inl (on_exception ''Prediction error: '' e), calls)
                | (Inr (pred, prob), calls) \<Rightarrow>
                    (Inr \<lparr> prediction = pred, probability = prob,
                           model_used = req_model_type request,
                           confidence = confidence_level prob,
                           timestamp = now \<rparr>, calls))))"

text \<open>
  The loop of \<open>predict_batch\<close> (lines 202 to 206), with the two lists it appends to;
  the first record that raises ends it.
\<close>

fun batch_loop ::
  "builtins \<Rightarrow> ModelPredictor \<Rightarrow> string \<Rightarrow> pydict list \<Rightarrow> int list \<times> fl list \<Rightarrow> call list \<Rightarrow>
   (error + int list \<times> fl list) \<times> call list" where
  "batch_loop env p mt [] (preds, probs) calls = (Inr (preds, probs), calls)"
| "batch_loop env p mt (features_dict # rest) (preds, probs) calls =
     (case preprocess_input env features_dict (feature_names p) of
        Inl e \<Rightarrow> (Inl e, calls)
      | Inr features_array \<Rightarrow>
          (case ModelPredictor_predict p features_array mt of
             (Inl e, c) \<Rightarrow> (Inl e, calls @ c)
           | (Inr (pred, prob), c) \<Rightarrow>
               batch_loop env p mt rest (preds @ [pred], probs @ [prob]) (calls @ c)))"

definition predict_batch ::
  "builtins \<Rightarrow> ModelPredictor option \<Rightarrow> BatchPredictionRequest \<Rightarrow>
   (http_error + BatchPredictionResponse) \<times> call list" where
  "predict_batch env predictor request =
     (case predictor of
        None \<Rightarrow> (Inl (HTTPException 503 (Message ''Models not loaded'')), [])
      | Some p \<Rightarrow>
          (case batch_loop env p (batch_model_type request) (batch_data request) ([], []) [] of
             (Inl e, calls) \<Rightarrow> (Inl (on_exception ''Batch prediction error: '' e), calls)
           | (Inr (preds, probs), calls) \<Rightarrow>
               (let attacks = sum_list preds;
                    normals = int (length preds) - attacks
                in (Inr \<lparr> predictions = preds, probabilities = probs,
                          batch_model_used = batch_model_type request,
                          total_count = int (length preds),
                          attack_count = attacks, normal_count = normals \<rparr>, calls))))"

text \<open>
  A request to \<open>/api/predict\<close> as the service handles it: the framework builds the
  \<open>PredictionRequest\<close> first, which runs its validator, and calls \<open>predict\<close> only
  with a request that was built. \<open>BatchPredictionRequest\<close> has no validator, so a
  request to \<open>/api/predict/batch\<close> reaches \<open>predict_batch\<close> with any model type.
\<close>

definition post_predict ::
  "builtins \<Rightarrow> string \<Rightarrow> ModelPredictor option \<Rightarrow> pydict \<Rightarrow> string \<Rightarrow>
   (http_error + PredictionResponse) \<times> call list" where
  "post_predict env now predictor fs mt =
     (case new_PredictionRequest fs mt of
        Inl e \<Rightarrow> (Inl (RequestValidationError e), [])
      | Inr request \<Rightarrow> predict env now predictor request)"

text \<open>
  The operation the specification calls \<open>predict_one\<close>: what both endpoints do
  with one record to get its label and probability (lines 163 to 169 of \<open>predict\<close>,
  lines 203 and 204 of \<open>predict_batch\<close>), namely \<open>preprocess_input\<close> on the
  dictionary and then \<open>ModelPredictor.predict\<close> on the array. The endpoint is its
  caller and assigns the confidence.
\<close>

definition predict_one ::
  "builtins \<Rightarrow> ModelPredictor \<Rightarrow> pydict \<Rightarrow> string \<Rightarrow> (error + int \<times> fl) \<times> call list" where
  "predict_one env p fs mt =
     (case preprocess_input env fs (feature_names p) of
        Inl e \<Rightarrow> (Inl e, [])
      | Inr features_array \<Rightarrow> ModelPredictor_predict p features_array mt)"

section \<open>Notions used in the statements\<close>

text \<open>
  A value that is not numeric (\<open>float()\<close> rejects it), NaN or infinite, as it is or
  once converted; \<open>value_error\<close> is the error the loop of \<open>validate_features\<close>
  raises on it. A value that the loop lets pass. An int that \<open>np.isnan\<close> does not
  take is neither.
\<close>

definition offending :: "builtins \<Rightarrow> pyval \<Rightarrow> bool" where
  "offending env v =
     (case numeric_value env v of
        None \<Rightarrow> True
      | Some (IntNum i) \<Rightarrow> False
      | Some (FloatNum x) \<Rightarrow> isnan x \<or> isinf x)"

definition value_error :: "builtins \<Rightarrow> string \<Rightarrow> pyval \<Rightarrow> error" where
  "value_error env name v =
     (case numeric_value env v of
        None \<Rightarrow> NotNumeric name (type_of v)
      | Some (IntNum i) \<Rightarrow> NumpyTypeError
      | Some (FloatNum x) \<Rightarrow> InvalidValue name x)"

definition passes :: "builtins \<Rightarrow> pyval \<Rightarrow> bool" where
  "passes env v =
     (case numeric_value env v of
        None \<Rightarrow> False
      | Some (IntNum i) \<Rightarrow> np_int_ok i
      | Some (FloatNum x) \<Rightarrow> \<not> isnan x \<and> \<not> isinf x)"

fun unsupported_int :: "pyval \<Rightarrow> bool" where
  "unsupported_int (PyInt i) = (\<not> np_int_ok i)"
| "unsupported_int _ = False"

text \<open>
  A finite number: a float that is neither NaN nor infinite, or an int within the
  range \<open>np.isnan\<close> takes.
\<close>

fun finite_number :: "pyval \<Rightarrow> bool" where
  "finite_number (PyFloat (Finite r)) = True"
| "finite_number (PyInt i) = np_int_ok i"
| "finite_number _ = False"

text \<open>Whether a file of the model directory is absent.\<close>

fun absent :: "model_directory \<Rightarrow> artifact \<Rightarrow> bool" where
  "absent dir ScalerFile = (scaler_pkl dir = None)"
| "absent dir LogisticRegressionFile = (logistic_regression_pkl dir = None)"
| "absent dir KnnFile = (knn_pkl dir = None)"
| "absent dir MetadataFile = (model_metadata_json dir = None)"

text \<open>The first of the four files that is absent, in the order \<open>load\<close> looks for them.\<close>

definition first_missing :: "model_directory \<Rightarrow> artifact option" where
  "first_missing dir =
     (if scaler_pkl dir = None then Some ScalerFile
      else if logistic_regression_pkl dir = None then Some LogisticRegressionFile
      else if knn_pkl dir = None then Some KnnFile
      else if model_metadata_json dir = None then Some MetadataFile
      else None)"

text \<open>The classifier that lines 72 to 77 of \<open>ModelPredictor.predict\<close> select.\<close>

definition selected_model :: "ModelPredictor \<Rightarrow> string \<Rightarrow> Classifier option" where
  "selected_model p mt =
     (if mt = ''knn'' then knn p
      else if mt = ''logistic_regression'' then logistic_regression p
      else None)"

text \<open>A call of a classifier, as opposed to one of the scaler.\<close>

fun classifier_call :: "call \<Rightarrow> bool" where
  "classifier_call (ScalerTransform _) = False"
| "classifier_call _ = True"

section \<open>Sample artifacts for the examples\<close>

text \<open>
  A library environment for the examples: both parsers read "nan", "inf" and "1.5"
  and reject every other string.
\<close>

definition sample_builtins :: builtins where
  "sample_builtins =
     \<lparr> str_to_float = (\<lambda>s. if s = ''nan'' then Some NaN
                            else if s = ''inf'' then Some PosInf
                            else if s = ''1.5'' then Some (Finite (3/2))
                            else None),
       np_str_to_float = (\<lambda>s. if s = ''nan'' then Some NaN
                               else if s = ''inf'' then Some PosInf
                               else if s = ''1.5'' then Some (Finite (3/2))
                               else None) \<rparr>"

definition sample_scaler :: Scaler where
  "sample_scaler = \<lparr> transform = (\<lambda>x. x) \<rparr>"

text \<open>
  A classifier with probabilities, which looks at the first feature only, and one
  without \<open>predict_proba\<close>.
\<close>

definition sample_knn :: Classifier where
  "sample_knn =
     \<lparr> clf_predict =
         (\<lambda>x. case x of [] \<Rightarrow> 0 | a # _ \<Rightarrow> if fl_less (Finite 50) a then 1 else 0),
       predict_proba =
         Some (\<lambda>x. case x of
                 [] \<Rightarrow> [Finite (5/10), Finite (5/10)]
               | a # _ \<Rightarrow>
                   if fl_less (Finite 50) a then [Finite (5/100), Finite (95/100)]
                   else [Finite (9/10), Finite (1/10)]) \<rparr>"

definition sample_linear :: Classifier where
  "sample_linear = \<lparr> clf_predict = (\<lambda>x. 0), predict_proba = None \<rparr>"

definition sample_metadata :: Metadata where
  "sample_metadata = \<lparr> md_feature_names = Some [''duration'', ''fwd_packets''] \<rparr>"

definition sample_dir :: model_directory where
  "sample_dir =
     \<lparr> scaler_pkl = Some sample_scaler, logistic_regression_pkl = Some sample_linear,
       knn_pkl = Some sample_knn, model_metadata_json = Some sample_metadata \<rparr>"

definition sample_predictor :: ModelPredictor where
  "sample_predictor =
     \<lparr> model_dir = sample_dir, logistic_regression = Some sample_linear,
       knn = Some sample_knn, scaler = Some sample_scaler,
       feature_names = [''duration'', ''fwd_packets''], metadata = sample_metadata \<rparr>"

definition sample_features :: pydict where
  "sample_features =
     [(''duration'', PyFloat (Finite 100)), (''fwd_packets'', PyFloat (Finite 3))]"


section \<open>Properties\<close>

subsection \<open>Validation and ordering\<close>

lemma passes_iff: "passes env v \<longleftrightarrow> \<not> offending env v \<and> \<not> unsupported_int v"
  by (cases v) (auto simp: passes_def offending_def split: option.splits)

lemma finite_number_ok: "finite_number v \<Longrightarrow> passes env v"
  by (cases v rule: finite_number.cases) (simp_all add: passes_def)

lemma check_values_Cons:
  "check_values env ((n, v) # fs) =
     (if passes env v then check_values env fs else Inl (value_error env n v))"
  by (simp add: passes_def value_error_def split: option.splits number.splits)

lemma check_values_Inr:
  "check_values env fs = Inr () \<longleftrightarrow> (\<forall>(k, v) \<in> set fs. passes env v)"
  by (induction fs)
    (auto simp: check_values_Cons simp del: check_values.simps(2) split: if_splits)

lemma check_values_first:
  "\<forall>(k, x) \<in> set pre. passes env x \<Longrightarrow> \<not> passes env v \<Longrightarrow>
   check_values env (pre @ (n, v) # post) = Inl (value_error env n v)"
  by (induction pre) (auto simp: check_values_Cons simp del: check_values.simps(2))

lemma validate_missing:
  "\<not> set names \<subseteq> keys fs \<Longrightarrow>
   validate_features env fs names = Inl (MissingFeatures (set names - keys fs))"
  by (auto simp: validate_features_def Let_def)

lemma validate_present:
  "set names \<subseteq> keys fs \<Longrightarrow> validate_features env fs names = check_values env fs"
  by (auto simp: validate_features_def Let_def)

lemma keys_map_of: "n \<in> keys d \<longleftrightarrow> map_of d n \<noteq> None"
  by (simp add: keys_def map_of_eq_None_iff)

lemma getitems_cong:
  "\<forall>n \<in> set names. map_of A n = map_of B n \<Longrightarrow> getitems A names = getitems B names"
  by (induction names) (auto split: option.splits)

lemma nan_to_num_id: "\<forall>x \<in> set xs. \<exists>r. x = Finite r \<Longrightarrow> nan_to_num xs = xs"
  unfolding nan_to_num_def by (rule map_idI) auto

lemma nan_to_num_finite: "\<forall>y \<in> set (nan_to_num a). \<exists>r. y = Finite r"
proof
  fix y assume "y \<in> set (nan_to_num a)"
  then have "\<exists>x. y = (if isnan x \<or> isinf x then Finite 0 else x)"
    unfolding nan_to_num_def by (simp add: image_iff) blast
  then obtain x where "y = (if isnan x \<or> isinf x then Finite 0 else x)" ..
  then show "\<exists>r. y = Finite r" by (cases x) auto
qed

lemma np_int_ok_small: "np_int_ok i \<Longrightarrow> \<bar>i\<bar> < 2 ^ 1024 - 2 ^ 970"
proof -
  assume "np_int_ok i"
  then have "\<bar>i\<bar> \<le> 2 ^ 64" by (auto simp: np_int_ok_def abs_le_iff)
  moreover have "(2::int) ^ 64 < 2 ^ 1024 - 2 ^ 970" by simp
  ultimately show ?thesis by linarith
qed

lemma np_float64_finite:
  assumes "finite_number v"
  shows "\<exists>r. np_float64 env v = Inr (Finite r)"
proof (cases v)
  case (PyInt i)
  with assms have "np_int_ok i" by simp
  from np_int_ok_small[OF this] show ?thesis using PyInt by simp
next
  case (PyFloat x)
  with assms show ?thesis by (cases x) simp_all
qed (use assms in simp_all)

lemma finite_lookup:
  assumes "set names \<subseteq> keys fs" and "\<forall>(k, v) \<in> set fs. finite_number v"
    and "n \<in> set names"
  shows "\<exists>v. map_of fs n = Some v \<and> finite_number v"
proof -
  from assms(1,3) have "n \<in> keys fs" by blast
  then have "map_of fs n \<noteq> None" by (simp add: keys_map_of)
  then obtain v where v: "map_of fs n = Some v" by blast
  then have "(n, v) \<in> set fs" by (rule map_of_SomeD)
  with assms(2) have "finite_number v" by auto
  then show ?thesis using v by blast
qed

lemma ordered_finite:
  "\<forall>n \<in> set names. \<exists>v. map_of fs n = Some v \<and> finite_number v \<Longrightarrow>
   \<exists>vs xs. getitems fs names = Inr vs \<and> np_array env vs = Inr xs \<and>
        (\<forall>x \<in> set xs. \<exists>r. x = Finite r) \<and> length xs = length names \<and>
        (\<forall>i < length names. \<exists>v. map_of fs (names ! i) = Some v \<and> np_float64 env v = Inr (xs ! i))"
proof (induction names)
  case Nil
  then show ?case by simp
next
  case (Cons n ns)
  then obtain v where v: "map_of fs n = Some v" "finite_number v" by auto
  from np_float64_finite[OF v(2)] obtain r where r: "np_float64 env v = Inr (Finite r)" by blast
  from Cons obtain vs xs where xs: "getitems fs ns = Inr vs" "np_array env vs = Inr xs"
      "\<forall>x \<in> set xs. \<exists>r. x = Finite r" "length xs = length ns"
      "\<forall>i < length ns. \<exists>v. map_of fs (ns ! i) = Some v \<and> np_float64 env v = Inr (xs ! i)"
    by auto
  have "\<forall>i < length (n # ns). \<exists>w. map_of fs ((n # ns) ! i) = Some w \<and>
            np_float64 env w = Inr ((Finite r # xs) ! i)"
    using v(1) r xs(5) by (simp add: nth_Cons split: nat.splits)
  moreover have "getitems fs (n # ns) = Inr (v # vs)" using v(1) xs(1) by simp
  moreover have "np_array env (v # vs) = Inr (Finite r # xs)" using r xs(2) by simp
  ultimately show ?case using xs(3,4)
    by (intro exI[of _ "v # vs"] exI[of _ "Finite r # xs"]) simp
qed

text \<open>
  A feature vector that holds all contract names and only finite numbers passes
  validation, and \<open>preprocess_input\<close> returns a sequence as long as the contract,
  whose entry at each position is the float of the value the vector holds for the
  name at that position.
\<close>

lemma preprocess_orders_by_contract:
  assumes "set names \<subseteq> keys fs" and "\<forall>(k, v) \<in> set fs. finite_number v"
  shows "validate_features env fs names = Inr () \<and>
      (\<exists>xs. preprocess_input env fs names = Inr xs \<and> length xs = length names \<and>
         (\<forall>i < length names. \<exists>v. map_of fs (names ! i) = Some v \<and>
              np_float64 env v = Inr (xs ! i)))"
proof -
  have ok: "\<forall>(k, v) \<in> set fs. passes env v"
    using assms(2) finite_number_ok by fastforce
  have v: "validate_features env fs names = Inr ()"
    using ok assms(1) by (simp add: validate_present check_values_Inr)
  have "\<forall>n \<in> set names. \<exists>v. map_of fs n = Some v \<and> finite_number v"
    using finite_lookup[OF assms] by blast
  from ordered_finite[OF this] obtain vs xs where xs: "getitems fs names = Inr vs"
      "np_array env vs = Inr xs" "\<forall>x \<in> set xs. \<exists>r. x = Finite r" "length xs = length names"
      "\<forall>i < length names. \<exists>v. map_of fs (names ! i) = Some v \<and> np_float64 env v = Inr (xs ! i)"
    by blast
  have "preprocess_input env fs names = Inr xs"
    by (simp add: preprocess_input_def v xs(1,2) nan_to_num_id[OF xs(3)])
  then show ?thesis using v xs(4,5) by blast
qed

text \<open>
  The last step of \<open>preprocess_input\<close>: the sequence it returns is the array of the
  looked-up values with 0.0 in the place of each NaN and each infinity.
\<close>

lemma preprocess_input_clamps:
  assumes "preprocess_input env fs names = Inr ys"
  shows "\<exists>vs a. getitems fs names = Inr vs \<and> np_array env vs = Inr a \<and>
           length ys = length a \<and>
           (\<forall>i < length a. ys ! i = (if isnan (a ! i) \<or> isinf (a ! i) then Finite 0 else a ! i))"
proof -
  from assms obtain vs a where "getitems fs names = Inr vs" "np_array env vs = Inr a"
      "ys = nan_to_num a"
    by (auto simp: preprocess_input_def split: sum.splits)
  then show ?thesis by (auto simp: nan_to_num_def)
qed


text \<open>
  Claim C3. When the feature vector lacks one or more of the contract's names,
  validation fails with the missing-features error, and the names it carries are
  exactly the contract names absent from the vector: all of them, not only the
  first.
\<close>

theorem validate_reports_all_missing:
  "\<not> set names \<subseteq> keys fs \<Longrightarrow>
   \<exists>M. validate_features env fs names = Inl (MissingFeatures M) \<and>
       (\<forall>x. x \<in> M \<longleftrightarrow> x \<in> set names \<and> x \<notin> keys fs)"
  by (auto simp: validate_missing)

theorem validate_reports_all_missing_witness:
  "\<not> set [''a'', ''b'', ''c''] \<subseteq> keys [(''b'', PyFloat (Finite 1))] \<and>
   validate_features sample_builtins [(''b'', PyFloat (Finite 1))] [''a'', ''b'', ''c'']
     = Inl (MissingFeatures {''a'', ''c''})"
  using validate_reports_all_missing[of "[''a'', ''b'', ''c'']" "[(''b'', PyFloat (Finite 1))]"
      sample_builtins]
  by (auto simp: keys_def validate_features_def)

text \<open>
  Claim C4, as the code has it. When the feature vector holds all contract names,
  no int beyond the 64-bit range, and some value that is not numeric, NaN or
  infinite, validation fails on the first such item in the vector's iteration
  order: with the not-numeric error, which carries the feature's name and the type
  of the value, when \<open>float()\<close> rejects the value, and with the invalid-value error,
  which carries the feature's name and the value (converted to float), when it is
  NaN or infinite. Later offending items are not reported.
\<close>

theorem validate_reports_first_offending:
  assumes "set names \<subseteq> keys fs" and "(k, v) \<in> set fs" and "offending env v"
    and "\<forall>(m, y) \<in> set fs. \<not> unsupported_int y"
  shows "\<exists>pre n x post. fs = pre @ (n, x) # post \<and>
      (\<forall>(m, y) \<in> set pre. \<not> offending env y) \<and> offending env x \<and>
      ((numeric_value env x = None \<and>
        validate_features env fs names = Inl (NotNumeric n (type_of x))) \<or>
       (\<exists>z. numeric_value env x = Some (FloatNum z) \<and> (isnan z \<or> isinf z) \<and>
            validate_features env fs names = Inl (InvalidValue n z)))"
proof -
  from assms(2,3) have "\<exists>e \<in> set fs. \<not> passes env (snd e)"
    by (force simp: passes_iff)
  then obtain pre e post where sp: "fs = pre @ e # post" "\<not> passes env (snd e)"
      "\<forall>y \<in> set pre. passes env (snd y)"
    by (auto simp: split_list_first_prop_iff)
  obtain n x where e: "e = (n, x)" by (cases e)
  from sp(1) e assms(4) have "\<not> unsupported_int x" by auto
  with sp(2) e have off: "offending env x" by (simp add: passes_iff)
  have pre: "\<forall>(m, y) \<in> set pre. passes env y" using sp(3) by auto
  then have "check_values env (pre @ (n, x) # post) = Inl (value_error env n x)"
    using sp(2) e by (intro check_values_first) auto
  then have val: "validate_features env fs names = Inl (value_error env n x)"
    using sp(1) e assms(1) by (simp add: validate_present)
  have "\<forall>(m, y) \<in> set pre. \<not> offending env y" using pre by (auto simp: passes_iff)
  moreover have "(numeric_value env x = None \<and>
        validate_features env fs names = Inl (NotNumeric n (type_of x))) \<or>
       (\<exists>z. numeric_value env x = Some (FloatNum z) \<and> (isnan z \<or> isinf z) \<and>
            validate_features env fs names = Inl (InvalidValue n z))"
    using off val
    by (auto simp: value_error_def offending_def split: option.splits number.splits)
  ultimately show ?thesis using sp(1) e off by blast
qed

theorem validate_reports_first_offending_witness:
  "set [''a'', ''b''] \<subseteq> keys [(''a'', PyInt 1), (''b'', PyStr ''x''), (''c'', PyFloat NaN)] \<and>
   offending sample_builtins (PyFloat NaN) \<and>
   \<not> unsupported_int (PyInt 1) \<and>
   validate_features sample_builtins
       [(''a'', PyInt 1), (''b'', PyStr ''x''), (''c'', PyFloat NaN)] [''a'', ''b'']
     = Inl (NotNumeric ''b'' StrType)"
  using validate_reports_first_offending[of "[''a'', ''b'']"
      "[(''a'', PyInt 1), (''b'', PyStr ''x''), (''c'', PyFloat NaN)]"
      "''c''" "PyFloat NaN" sample_builtins]
  by (simp add: validate_features_def keys_def sample_builtins_def offending_def np_int_ok_def)

text \<open>
  The claim as it was stated fails: with two offending values the error names the
  first one only, and for a value that is not numeric the error carries the type,
  not the value.
\<close>

theorem validate_names_one_value_only:
  "set [''a'', ''b''] \<subseteq> keys [(''a'', PyFloat NaN), (''b'', PyFloat PosInf)] \<and>
   wf_dict [(''a'', PyFloat NaN), (''b'', PyFloat PosInf)] \<and>
   offending sample_builtins (PyFloat PosInf) \<and>
   validate_features sample_builtins [(''a'', PyFloat NaN), (''b'', PyFloat PosInf)] [''a'', ''b'']
     = Inl (InvalidValue ''a'' NaN) \<and>
   validate_features sample_builtins [(''a'', PyFloat NaN), (''b'', PyFloat PosInf)] [''a'', ''b'']
     \<noteq> Inl (InvalidValue ''b'' PosInf) \<and>
   offending sample_builtins PyNone \<and>
   validate_features sample_builtins [(''a'', PyNone)] [''a''] = Inl (NotNumeric ''a'' NoneType)"
  by (simp add: validate_features_def keys_def offending_def wf_dict_def)

text \<open>
  Claim C5, as the code has it. The values of extra keys are checked like all
  others, and the extra keys are ignored once they pass: when V holds all contract
  names and only finite numbers (floats, or ints within the 64-bit range), and the
  dictionary V' agrees with V on V's keys and holds, under its other keys, only
  values that the check lets pass (numeric, neither NaN nor infinite, an int
  within the 64-bit range), then validation succeeds on both and
  \<open>preprocess_input\<close> returns the same sequence.
\<close>

theorem extra_keys_checked_then_ignored:
  assumes "set names \<subseteq> keys V" and "\<forall>(k, v) \<in> set V. finite_number v"
    and "wf_dict V'" and "\<forall>n \<in> keys V. map_of V' n = map_of V n"
    and "\<forall>(k, v) \<in> set V'. k \<notin> keys V \<longrightarrow> passes env v"
  shows "validate_features env V names = Inr () \<and> validate_features env V' names = Inr () \<and>
         preprocess_input env V' names = preprocess_input env V names \<and>
         (\<exists>xs. preprocess_input env V names = Inr xs)"
proof -
  have okV: "\<forall>(k, v) \<in> set V. passes env v"
    using assms(2) finite_number_ok by fastforce
  have v: "validate_features env V names = Inr ()"
    using assms(1) okV by (simp add: validate_present check_values_Inr)
  have sub': "set names \<subseteq> keys V'"
    using assms(1,4) by (auto simp: keys_map_of)
  have okV': "passes env v" if "(k, v) \<in> set V'" for k v
  proof (cases "k \<in> keys V")
    case True
    from assms(3) that have "map_of V' k = Some v" by (simp add: wf_dict_def)
    with True assms(4) have "map_of V k = Some v" by simp
    then have "(k, v) \<in> set V" by (rule map_of_SomeD)
    with okV show ?thesis by auto
  next
    case False
    with assms(5) that show ?thesis by auto
  qed
  then have v': "validate_features env V' names = Inr ()"
    using sub' by (auto simp: validate_present check_values_Inr)
  have "getitems V' names = getitems V names"
    using assms(1,4) by (intro getitems_cong) auto
  then have eq: "preprocess_input env V' names = preprocess_input env V names"
    by (simp add: preprocess_input_def v v')
  have "\<exists>ys. preprocess_input env V names = Inr ys"
    using preprocess_orders_by_contract[OF assms(1,2)] by blast
  with v v' eq show ?thesis by simp
qed

theorem extra_keys_checked_then_ignored_witness:
  "validate_features sample_builtins
       [(''x'', PyStr ''1.5''), (''a'', PyFloat (Finite 1)), (''y'', PyInt 7)] [''a'']
     = Inr () \<and>
   preprocess_input sample_builtins
       [(''x'', PyStr ''1.5''), (''a'', PyFloat (Finite 1)), (''y'', PyInt 7)] [''a'']
     = Inr [Finite 1] \<and>
   preprocess_input sample_builtins [(''a'', PyFloat (Finite 1))] [''a''] = Inr [Finite 1]"
  using extra_keys_checked_then_ignored[of "[''a'']" "[(''a'', PyFloat (Finite 1))]"
      "[(''x'', PyStr ''1.5''), (''a'', PyFloat (Finite 1)), (''y'', PyInt 7)]" sample_builtins]
  by (simp add: preprocess_input_def validate_features_def keys_def nan_to_num_def wf_dict_def
        passes_def sample_builtins_def np_int_ok_def)

text \<open>
  The claim as it was stated fails: an extra key that holds NaN makes validation
  fail on a vector that is valid without it.
\<close>

theorem extra_key_with_nan_rejected:
  "validate_features sample_builtins [(''a'', PyFloat (Finite 1))] [''a''] = Inr () \<and>
   preprocess_input sample_builtins [(''a'', PyFloat (Finite 1))] [''a''] = Inr [Finite 1] \<and>
   ''zzz'' \<notin> set [''a''] \<and>
   wf_dict [(''a'', PyFloat (Finite 1)), (''zzz'', PyFloat NaN)] \<and>
   validate_features sample_builtins [(''a'', PyFloat (Finite 1)), (''zzz'', PyFloat NaN)] [''a'']
     = Inl (InvalidValue ''zzz'' NaN) \<and>
   preprocess_input sample_builtins [(''a'', PyFloat (Finite 1)), (''zzz'', PyFloat NaN)] [''a'']
     = Inl (InvalidValue ''zzz'' NaN)"
  by (simp add: preprocess_input_def validate_features_def keys_def nan_to_num_def wf_dict_def)

text \<open>
  Claim C10. When the feature vector lacks a contract name and also holds a value
  that is not numeric, NaN or infinite, validation raises the missing-features
  error and neither of the two value errors: the names are checked before any value
  is looked at.
\<close>

theorem missing_takes_precedence:
  "\<not> set names \<subseteq> keys fs \<Longrightarrow> (k, v) \<in> set fs \<Longrightarrow> offending env v \<Longrightarrow>
   validate_features env fs names = Inl (MissingFeatures (set names - keys fs)) \<and>
   (\<forall>n x. validate_features env fs names \<noteq> Inl (InvalidValue n x)) \<and>
   (\<forall>n t. validate_features env fs names \<noteq> Inl (NotNumeric n t))"
  by (simp add: validate_missing)

theorem missing_takes_precedence_witness:
  "\<not> set [''a'', ''b'', ''c''] \<subseteq> keys [(''b'', PyFloat NaN)] \<and>
   offending sample_builtins (PyFloat NaN) \<and>
   validate_features sample_builtins [(''b'', PyFloat NaN)] [''a'', ''b'', ''c'']
     = Inl (MissingFeatures {''a'', ''c''}) \<and>
   validate_features sample_builtins [(''b'', PyFloat NaN)] [''a'', ''b'', ''c'']
     \<noteq> Inl (InvalidValue ''b'' NaN)"
  using missing_takes_precedence[of "[''a'', ''b'', ''c'']" "[(''b'', PyFloat NaN)]"
      "''b''" "PyFloat NaN" sample_builtins]
  by (auto simp: keys_def offending_def)

subsection \<open>Prediction\<close>

lemma fl_cases_conf:
  "confidence_level (Finite p) =
     (if p > 8/10 \<or> p < 2/10 then ''High''
      else if p > 6/10 \<or> p < 4/10 then ''Medium'' else ''Low'')"
  by (simp add: confidence_level_def fl_greater_def)

lemma ModelPredictor_predict_unknown:
  "scaler p = Some sc \<Longrightarrow> logistic_regression p = Some lr \<Longrightarrow> knn p = Some kn \<Longrightarrow>
   mt \<notin> {''knn'', ''logistic_regression''} \<Longrightarrow>
   ModelPredictor_predict p x mt = (Inl (UnknownModelType mt), [ScalerTransform x])"
  by (simp add: ModelPredictor_predict_def)

lemma run_model_no_proba:
  "predict_proba c = None \<Longrightarrow>
   run_model w c x calls = (Inr (clf_predict c x, Finite (5/10)), calls @ [ClassifierPredict w x])"
  by (simp add: run_model_def)

lemma predict_as_predict_one:
  "predict env now (Some p) request =
     (case predict_one env p (req_features request) (req_model_type request) of
        (Inl e, c) \<Rightarrow> (Inl (on_exception ''Prediction error: '' e), c)
      | (Inr (pred, prob), c) \<Rightarrow>
          (Inr \<lparr> prediction = pred, probability = prob, model_used = req_model_type request,
                 confidence = confidence_level prob, timestamp = now \<rparr>, c))"
  by (auto simp: predict_def predict_one_def split: sum.splits prod.splits)

lemma batch_loop_Cons:
  "batch_loop env p mt (d # rest) (preds, probs) calls =
     (case predict_one env p d mt of
        (Inl e, c) \<Rightarrow> (Inl e, calls @ c)
      | (Inr (pred, prob), c) \<Rightarrow>
          batch_loop env p mt rest (preds @ [pred], probs @ [prob]) (calls @ c))"
  by (simp add: predict_one_def split: sum.splits prod.splits)

lemma batch_loop_Inr:
  "batch_loop env p mt ds (preds, probs) calls = (Inr (P, Q), C) \<Longrightarrow>
   \<exists>ys. length ys = length ds \<and> P = preds @ map fst ys \<and> Q = probs @ map snd ys \<and>
        (\<forall>i < length ds. \<exists>c. predict_one env p (ds ! i) mt = (Inr (ys ! i), c))"
proof (induction ds arbitrary: preds probs calls)
  case Nil
  then show ?case by simp
next
  case (Cons d rest)
  from Cons.prems obtain pred prob c where
      one: "predict_one env p d mt = (Inr (pred, prob), c)"
      and rest: "batch_loop env p mt rest (preds @ [pred], probs @ [prob]) (calls @ c) = (Inr (P, Q), C)"
    by (auto simp: batch_loop_Cons simp del: batch_loop.simps split: sum.splits prod.splits)
  from Cons.IH[OF rest] obtain ys where ys: "length ys = length rest"
      "P = (preds @ [pred]) @ map fst ys" "Q = (probs @ [prob]) @ map snd ys"
      "\<forall>i < length rest. \<exists>c. predict_one env p (rest ! i) mt = (Inr (ys ! i), c)"
    by blast
  have "\<forall>i < length (d # rest). \<exists>c. predict_one env p ((d # rest) ! i) mt = (Inr (((pred, prob) # ys) ! i), c)"
    using one ys(4) by (simp add: nth_Cons split: nat.splits)
  then show ?case using ys(1-3)
    by (intro exI[of _ "(pred, prob) # ys"]) simp
qed

lemma batch_loop_total:
  "\<forall>d \<in> set ds. \<exists>y c. predict_one env p d mt = (Inr y, c) \<Longrightarrow>
   \<exists>P Q C. batch_loop env p mt ds (preds, probs) calls = (Inr (P, Q), C)"
proof (induction ds arbitrary: preds probs calls)
  case Nil
  then show ?case by simp
next
  case (Cons d rest)
  then obtain pred prob c where "predict_one env p d mt = (Inr (pred, prob), c)"
    by fastforce
  moreover from Cons have "\<exists>P Q C. batch_loop env p mt rest (preds @ [pred], probs @ [prob]) (calls @ c) = (Inr (P, Q), C)"
    by simp
  ultimately show ?case by (simp add: batch_loop_Cons del: batch_loop.simps)
qed

lemma sum_list_labels:
  "set xs \<subseteq> {0, 1 :: int} \<Longrightarrow> sum_list xs = int (length (filter (\<lambda>l. l = 1) xs))"
  by (induction xs) auto

lemma predict_batch_Inr:
  "predict_batch env (Some p) \<lparr> batch_data = ds, batch_model_type = mt \<rparr> = (Inr b, calls) \<Longrightarrow>
   \<exists>P Q. batch_loop env p mt ds ([], []) [] = (Inr (P, Q), calls) \<and>
     b = \<lparr> predictions = P, probabilities = Q, batch_model_used = mt,
           total_count = int (length P), attack_count = sum_list P,
           normal_count = int (length P) - sum_list P \<rparr>"
  by (auto simp: predict_batch_def Let_def split: sum.splits prod.splits)

text \<open>
  Claim C1. The confidence that the endpoint \<open>predict\<close>, the caller of the
  prediction, puts in its response is determined by the probability the prediction
  returned: "High" if p > 0.8 or p < 0.2, otherwise "Medium" if p > 0.6 or
  p < 0.4, otherwise "Low". On a finite p the comparisons are those of the reals;
  0.9 gives "High", 0.5 "Low", 0.65 "Medium", 0.1 "High" and 0.35 "Medium".
\<close>

theorem confidence_bucketing:
  "(predict env now (Some p) request = (Inr resp, calls) \<longrightarrow>
      predict_one env p (req_features request) (req_model_type request)
        = (Inr (prediction resp, probability resp), calls) \<and>
      confidence resp =
        (if fl_greater (probability resp) (Finite (8/10)) \<or> fl_less (probability resp) (Finite (2/10))
           then ''High''
         else if fl_greater (probability resp) (Finite (6/10)) \<or> fl_less (probability resp) (Finite (4/10))
           then ''Medium''
         else ''Low'')) \<and>
   confidence_level (Finite q) =
     (if q > 8/10 \<or> q < 2/10 then ''High''
      else if q > 6/10 \<or> q < 4/10 then ''Medium'' else ''Low'') \<and>
   confidence_level (Finite (9/10)) = ''High'' \<and>
   confidence_level (Finite (5/10)) = ''Low'' \<and>
   confidence_level (Finite (65/100)) = ''Medium'' \<and>
   confidence_level (Finite (1/10)) = ''High'' \<and>
   confidence_level (Finite (35/100)) = ''Medium''"
proof -
  have "predict_one env p (req_features request) (req_model_type request)
        = (Inr (prediction resp, probability resp), calls) \<and>
      confidence resp = confidence_level (probability resp)"
    if "predict env now (Some p) request = (Inr resp, calls)"
    using that by (auto simp: predict_as_predict_one split: sum.splits prod.splits)
  then show ?thesis
    by (simp add: fl_cases_conf) (simp add: confidence_level_def)
qed

theorem confidence_bucketing_witness:
  "predict sample_builtins ''t0'' (Some sample_predictor)
       \<lparr> req_features = sample_features, req_model_type = ''knn'' \<rparr>
     = (Inr \<lparr> prediction = 1, probability = Finite (95/100), model_used = ''knn'',
              confidence = ''High'', timestamp = ''t0'' \<rparr>,
        [ScalerTransform [Finite 100, Finite 3], ClassifierPredict KNN [Finite 100, Finite 3],
         ClassifierPredictProba KNN [Finite 100, Finite 3]])"
  using confidence_bucketing[of sample_builtins "''t0''" sample_predictor
      "\<lparr> req_features = sample_features, req_model_type = ''knn'' \<rparr>"]
  by (simp add: predict_def preprocess_input_def validate_features_def keys_def nan_to_num_def
        sample_predictor_def sample_features_def ModelPredictor_predict_def run_model_def
        sample_scaler_def sample_knn_def confidence_level_def fl_greater_def Let_def)

text \<open>
  Claim C6, as the code has it. For a model type other than "knn" and
  "logistic_regression": no \<open>PredictionRequest\<close> can be built, so a request to
  \<open>/api/predict\<close> is rejected by the validator and neither the scaler nor a
  classifier is called. \<open>predict_one\<close> itself, reached with such a type through the
  batch endpoint, always fails and never calls a classifier, but it checks the
  model type last: when the features preprocess and the models are loaded it calls
  the scaler's \<open>transform\<close> once and then fails with the unknown-model-type error.
\<close>

theorem unknown_model_type_rejected:
  assumes "mt \<notin> {''knn'', ''logistic_regression''}"
  shows "new_PredictionRequest fs mt = Inl (InvalidModelType mt) \<and>
     post_predict env now predictor fs mt = (Inl (RequestValidationError (InvalidModelType mt)), []) \<and>
     (\<exists>e. fst (predict_one env p fs mt) = Inl e) \<and>
     (\<forall>c \<in> set (snd (predict_one env p fs mt)). \<not> classifier_call c) \<and>
     (scaler p = Some sc \<and> logistic_regression p = Some lr \<and> knn p = Some kn \<and>
      preprocess_input env fs (feature_names p) = Inr x \<longrightarrow>
        predict_one env p fs mt = (Inl (UnknownModelType mt), [ScalerTransform x]))"
proof -
  have m: "ModelPredictor_predict p y mt = (Inl ModelsNotLoaded, []) \<or>
        ModelPredictor_predict p y mt = (Inl (UnknownModelType mt), [ScalerTransform y])" for y
    using assms by (auto simp: ModelPredictor_predict_def Let_def split: option.splits)
  have one: "(\<exists>e. predict_one env p fs mt = (Inl e, [])) \<or>
      (\<exists>y. predict_one env p fs mt = (Inl (UnknownModelType mt), [ScalerTransform y]))"
  proof (cases "preprocess_input env fs (feature_names p)")
    case (Inl e)
    then show ?thesis by (simp add: predict_one_def)
  next
    case (Inr y)
    with m[of y] show ?thesis by (auto simp: predict_one_def)
  qed
  have "new_PredictionRequest fs mt = Inl (InvalidModelType mt)"
    using assms by (simp add: new_PredictionRequest_def validate_model_type_def)
  moreover from this have "post_predict env now predictor fs mt
      = (Inl (RequestValidationError (InvalidModelType mt)), [])"
    by (simp add: post_predict_def)
  moreover from one have "\<exists>e. fst (predict_one env p fs mt) = Inl e" by auto
  moreover from one have "\<forall>c \<in> set (snd (predict_one env p fs mt)). \<not> classifier_call c"
    by auto
  moreover have "predict_one env p fs mt = (Inl (UnknownModelType mt), [ScalerTransform x])"
    if "scaler p = Some sc \<and> logistic_regression p = Some lr \<and> knn p = Some kn \<and>
      preprocess_input env fs (feature_names p) = Inr x"
    using that assms by (simp add: predict_one_def ModelPredictor_predict_unknown)
  ultimately show ?thesis by blast
qed

theorem unknown_model_type_rejected_witness:
  "''unknown'' \<notin> {''knn'', ''logistic_regression''} \<and>
   post_predict sample_builtins ''t0'' (Some sample_predictor) sample_features ''unknown''
     = (Inl (RequestValidationError (InvalidModelType ''unknown'')), []) \<and>
   predict_one sample_builtins sample_predictor sample_features ''unknown''
     = (Inl (UnknownModelType ''unknown''), [ScalerTransform [Finite 100, Finite 3]])"
  using unknown_model_type_rejected[of "''unknown''" sample_features sample_builtins "''t0''"
      "Some sample_predictor" sample_predictor sample_scaler sample_linear sample_knn
      "[Finite 100, Finite 3]"]
  by (simp add: sample_predictor_def preprocess_input_def validate_features_def keys_def
        nan_to_num_def sample_features_def)

text \<open>
  The claim as it was stated fails for \<open>predict_one\<close>: with an unknown model type
  the scaler has been called when the unknown-model-type error is raised, and on
  features that do not validate the error is the validation error.
\<close>

theorem predict_one_scales_before_rejecting:
  "''unknown'' \<notin> set [''knn'', ''logistic_regression''] \<and>
   predict_one sample_builtins sample_predictor sample_features ''unknown''
     = (Inl (UnknownModelType ''unknown''), [ScalerTransform [Finite 100, Finite 3]]) \<and>
   predict_one sample_builtins sample_predictor [(''duration'', PyFloat NaN)] ''unknown''
     = (Inl (MissingFeatures {''fwd_packets''}), [])"
  by (simp add: predict_one_def sample_predictor_def preprocess_input_def validate_features_def
        keys_def nan_to_num_def sample_features_def ModelPredictor_predict_def Let_def
        sample_scaler_def)

text \<open>
  Claim C7. A batch that succeeds holds, at each position, the label and the
  probability that \<open>predict_one\<close> returns for the record at that position, and it
  succeeds whenever \<open>predict_one\<close> succeeds on every record; a batch of one record
  gives the label and probability of \<open>predict_one\<close> on that record, which are also
  those of the response of the endpoint \<open>predict\<close>. In every batch result
  \<open>total_count\<close> is the length of the input and \<open>attack_count + normal_count\<close>
  equals it; \<open>attack_count\<close> is the sum of the labels, which is the number of
  records labelled 1 when the labels are 0 or 1, as the response model documents
  them. This holds for every model type, the valid ones in particular.
\<close>

theorem batch_agrees_with_single:
  "(predict_batch env (Some p) \<lparr> batch_data = ds, batch_model_type = mt \<rparr> = (Inr b, calls) \<longrightarrow>
      length (predictions b) = length ds \<and> length (probabilities b) = length ds \<and>
      (\<forall>i < length ds. \<exists>c.
          predict_one env p (ds ! i) mt = (Inr (predictions b ! i, probabilities b ! i), c)) \<and>
      total_count b = int (length ds) \<and>
      attack_count b + normal_count b = total_count b \<and>
      attack_count b = sum_list (predictions b) \<and>
      (set (predictions b) \<subseteq> {0, 1} \<longrightarrow>
         attack_count b = int (length (filter (\<lambda>l. l = 1) (predictions b))))) \<and>
   ((\<forall>d \<in> set ds. \<exists>y c. predict_one env p d mt = (Inr y, c)) \<longrightarrow>
      (\<exists>b calls. predict_batch env (Some p) \<lparr> batch_data = ds, batch_model_type = mt \<rparr>
          = (Inr b, calls))) \<and>
   (predict_one env p d mt = (Inr (l, q), c) \<longrightarrow>
      (\<exists>b. predict_batch env (Some p) \<lparr> batch_data = [d], batch_model_type = mt \<rparr> = (Inr b, c) \<and>
           predictions b = [l] \<and> probabilities b = [q])) \<and>
   (predict env now (Some p) \<lparr> req_features = d, req_model_type = mt \<rparr> = (Inr r, c) \<longrightarrow>
      predict_one env p d mt = (Inr (prediction r, probability r), c))"
proof (intro conjI impI)
  assume "predict_batch env (Some p) \<lparr> batch_data = ds, batch_model_type = mt \<rparr> = (Inr b, calls)"
  from predict_batch_Inr[OF this] obtain P Q where
    loop: "batch_loop env p mt ds ([], []) [] = (Inr (P, Q), calls)"
    and b: "b = \<lparr> predictions = P, probabilities = Q, batch_model_used = mt,
           total_count = int (length P), attack_count = sum_list P,
           normal_count = int (length P) - sum_list P \<rparr>"
    by blast
  from batch_loop_Inr[OF loop] obtain ys where ys: "length ys = length ds"
      "P = map fst ys" "Q = map snd ys"
      "\<forall>i < length ds. \<exists>c. predict_one env p (ds ! i) mt = (Inr (ys ! i), c)"
    by auto
  show "length (predictions b) = length ds" "length (probabilities b) = length ds"
       "total_count b = int (length ds)" "attack_count b + normal_count b = total_count b"
       "attack_count b = sum_list (predictions b)"
    using b ys(1-3) by simp_all
  show "\<forall>i < length ds. \<exists>c.
          predict_one env p (ds ! i) mt = (Inr (predictions b ! i, probabilities b ! i), c)"
    using b ys by simp
  assume "set (predictions b) \<subseteq> {0, 1}"
  then show "attack_count b = int (length (filter (\<lambda>l. l = 1) (predictions b)))"
    using b by (simp add: sum_list_labels)
next
  assume "\<forall>d \<in> set ds. \<exists>y c. predict_one env p d mt = (Inr y, c)"
  from batch_loop_total[OF this] obtain P Q C where
    "batch_loop env p mt ds ([], []) [] = (Inr (P, Q), C)" by blast
  then show "\<exists>b calls. predict_batch env (Some p) \<lparr> batch_data = ds, batch_model_type = mt \<rparr>
          = (Inr b, calls)"
    by (simp add: predict_batch_def Let_def)
next
  assume "predict_one env p d mt = (Inr (l, q), c)"
  then show "\<exists>b. predict_batch env (Some p) \<lparr> batch_data = [d], batch_model_type = mt \<rparr> = (Inr b, c) \<and>
           predictions b = [l] \<and> probabilities b = [q]"
    by (simp add: predict_batch_def Let_def batch_loop_Cons del: batch_loop.simps(2))
next
  assume "predict env now (Some p) \<lparr> req_features = d, req_model_type = mt \<rparr> = (Inr r, c)"
  then show "predict_one env p d mt = (Inr (prediction r, probability r), c)"
    by (auto simp: predict_as_predict_one split: sum.splits prod.splits)
qed

theorem batch_agrees_with_single_witness:
  "predict_batch sample_builtins (Some sample_predictor)
       \<lparr> batch_data = [sample_features,
            [(''fwd_packets'', PyFloat (Finite 7)), (''duration'', PyFloat (Finite 2))]],
         batch_model_type = ''knn'' \<rparr>
     = (Inr \<lparr> predictions = [1, 0], probabilities = [Finite (95/100), Finite (1/10)],
              batch_model_used = ''knn'', total_count = 2, attack_count = 1, normal_count = 1 \<rparr>,
        [ScalerTransform [Finite 100, Finite 3], ClassifierPredict KNN [Finite 100, Finite 3],
         ClassifierPredictProba KNN [Finite 100, Finite 3],
         ScalerTransform [Finite 2, Finite 7], ClassifierPredict KNN [Finite 2, Finite 7],
         ClassifierPredictProba KNN [Finite 2, Finite 7]]) \<and>
   predict_one sample_builtins sample_predictor sample_features ''knn''
     = (Inr (1, Finite (95/100)),
        [ScalerTransform [Finite 100, Finite 3], ClassifierPredict KNN [Finite 100, Finite 3],
         ClassifierPredictProba KNN [Finite 100, Finite 3]])"
  using batch_agrees_with_single[of sample_builtins sample_predictor
      "[sample_features, [(''fwd_packets'', PyFloat (Finite 7)), (''duration'', PyFloat (Finite 2))]]"
      "''knn''"]
  by (simp add: predict_batch_def predict_one_def
        preprocess_input_def validate_features_def keys_def nan_to_num_def
        sample_predictor_def sample_features_def ModelPredictor_predict_def run_model_def
        sample_scaler_def sample_knn_def Let_def)

text \<open>
  Claim C9. When the models are loaded, the features preprocess and the selected
  classifier has no \<open>predict_proba\<close>, \<open>predict_one\<close> returns the label the
  classifier predicts together with the probability 0.5, whatever the label is;
  the endpoint reports that probability, with confidence "Low".
\<close>

theorem fallback_probability:
  assumes "scaler p = Some sc" and "logistic_regression p = Some lr" and "knn p = Some kn"
    and "selected_model p mt = Some c" and "predict_proba c = None"
    and "preprocess_input env fs (feature_names p) = Inr x"
  shows "\<exists>calls. predict_one env p fs mt = (Inr (clf_predict c (transform sc x), Finite (5/10)), calls) \<and>
           predict env now (Some p) \<lparr> req_features = fs, req_model_type = mt \<rparr> =
             (Inr \<lparr> prediction = clf_predict c (transform sc x), probability = Finite (5/10),
                    model_used = mt, confidence = ''Low'', timestamp = now \<rparr>, calls)"
proof -
  from assms(4) have mt: "mt = ''knn'' \<or> mt = ''logistic_regression''"
    by (auto simp: selected_model_def split: if_splits)
  have m: "ModelPredictor_predict p x mt = (Inr (clf_predict c (transform sc x), Finite (5/10)), 
            [ScalerTransform x, ClassifierPredict (if mt = ''knn'' then KNN else LogisticRegression) (transform sc x)])"
    using assms(1-5) mt
    by (auto simp: ModelPredictor_predict_def selected_model_def run_model_no_proba)
  then have "predict_one env p fs mt = (Inr (clf_predict c (transform sc x), Finite (5/10)), 
            [ScalerTransform x, ClassifierPredict (if mt = ''knn'' then KNN else LogisticRegression) (transform sc x)])"
    using assms(6) by (simp add: predict_one_def)
  then show ?thesis
    by (simp add: predict_as_predict_one confidence_level_def fl_greater_def)
qed

theorem fallback_probability_witness:
  "selected_model sample_predictor ''logistic_regression'' = Some sample_linear \<and>
   predict_proba sample_linear = None \<and>
   predict_one sample_builtins sample_predictor sample_features ''logistic_regression''
     = (Inr (0, Finite (5/10)),
        [ScalerTransform [Finite 100, Finite 3],
         ClassifierPredict LogisticRegression [Finite 100, Finite 3]])"
  using fallback_probability[of sample_predictor sample_scaler sample_linear sample_knn
      "''logistic_regression''" sample_linear sample_builtins sample_features
      "[Finite 100, Finite 3]" "''t0''"]
  by (simp add: sample_predictor_def selected_model_def sample_linear_def sample_scaler_def
        preprocess_input_def validate_features_def keys_def nan_to_num_def sample_features_def
        predict_one_def ModelPredictor_predict_def run_model_def Let_def)

subsection \<open>Loading the models\<close>

text \<open>
  Claim C8. When any of the four files is absent, loading fails with the
  file-not-found error that names an absent file, the first in the order scaler,
  logistic regression, knn, metadata: \<open>ModelPredictor.load\<close> raises it,
  \<open>load_models\<close> returns no predictor and \<open>startup_event\<close> leaves the global
  predictor unset, so that both prediction endpoints answer 503 without calling
  the scaler or a classifier. In a directory where only knn is absent the error
  names knn. Only when no file is absent is a predictor returned, and it holds the
  scaler, both classifiers and the feature names of the metadata.
\<close>

theorem load_fails_on_missing:
  "(absent dir f \<longrightarrow>
      (\<exists>a. absent dir a \<and> first_missing dir = Some a \<and>
           load_models dir = Inl (FileNotFoundError a))) \<and>
   (first_missing dir = Some a \<longrightarrow>
      absent dir a \<and>
      fst (ModelPredictor_load (ModelPredictor_init dir)) = Inl (FileNotFoundError a) \<and>
      load_models dir = Inl (FileNotFoundError a) \<and>
      startup_event dir = (Inl (FileNotFoundError a), None) \<and>
      predict env now (snd (startup_event dir)) request
        = (Inl (HTTPException 503 (Message ''Models not loaded'')), []) \<and>
      predict_batch env (snd (startup_event dir)) brequest
        = (Inl (HTTPException 503 (Message ''Models not loaded'')), [])) \<and>
   (\<not> absent dir ScalerFile \<and> \<not> absent dir LogisticRegressionFile \<and> absent dir KnnFile \<longrightarrow>
      first_missing dir = Some KnnFile) \<and>
   (load_models dir = Inr p \<longrightarrow>
      first_missing dir = None \<and> (\<forall>a. \<not> absent dir a) \<and>
      startup_event dir = (Inr (), Some p) \<and>
      scaler p = scaler_pkl dir \<and> scaler p \<noteq> None \<and>
      logistic_regression p = logistic_regression_pkl dir \<and> logistic_regression p \<noteq> None \<and>
      knn p = knn_pkl dir \<and> knn p \<noteq> None \<and>
      model_metadata_json dir = Some (metadata p)) \<and>
   (first_missing dir = None \<longrightarrow> (\<exists>p. load_models dir = Inr p))"
proof (intro conjI impI)
  assume "absent dir f"
  then have "first_missing dir \<noteq> None"
    by (cases f) (auto simp: first_missing_def)
  then obtain a where a: "first_missing dir = Some a" by blast
  then have "absent dir a"
    by (auto simp: first_missing_def split: if_splits)
  moreover from a have "load_models dir = Inl (FileNotFoundError a)"
    by (auto simp: first_missing_def load_models_def ModelPredictor_load_def
          ModelPredictor_init_def Let_def split: if_splits)
  ultimately show "\<exists>a. absent dir a \<and> first_missing dir = Some a \<and>
           load_models dir = Inl (FileNotFoundError a)"
    using a by blast
next
  assume fm: "first_missing dir = Some a"
  then show "absent dir a"
    by (auto simp: first_missing_def split: if_splits)
  from fm show l: "fst (ModelPredictor_load (ModelPredictor_init dir)) = Inl (FileNotFoundError a)"
    by (auto simp: first_missing_def ModelPredictor_load_def ModelPredictor_init_def Let_def
          split: if_splits)
  then show lm: "load_models dir = Inl (FileNotFoundError a)"
    by (cases "ModelPredictor_load (ModelPredictor_init dir)") (simp add: load_models_def)
  then show st: "startup_event dir = (Inl (FileNotFoundError a), None)"
    by (simp add: startup_event_def)
  then show "predict env now (snd (startup_event dir)) request
        = (Inl (HTTPException 503 (Message ''Models not loaded'')), [])"
    by (simp add: predict_def)
  from st show "predict_batch env (snd (startup_event dir)) brequest
        = (Inl (HTTPException 503 (Message ''Models not loaded'')), [])"
    by (simp add: predict_batch_def)
next
  assume "\<not> absent dir ScalerFile \<and> \<not> absent dir LogisticRegressionFile \<and> absent dir KnnFile"
  then show "first_missing dir = Some KnnFile" by (simp add: first_missing_def)
next
  assume lm: "load_models dir = Inr p"
  then have ld: "ModelPredictor_load (ModelPredictor_init dir) = (Inr (), p)"
    by (auto simp: load_models_def split: prod.splits sum.splits)
  then show fm: "first_missing dir = None"
    by (auto simp: first_missing_def ModelPredictor_load_def ModelPredictor_init_def Let_def
          split: option.splits)
  then show "\<forall>a. \<not> absent dir a"
  proof (intro allI)
    fix a from fm show "\<not> absent dir a"
      by (cases a) (auto simp: first_missing_def split: if_splits)
  qed
  from lm show "startup_event dir = (Inr (), Some p)" by (simp add: startup_event_def)
  from ld show "scaler p = scaler_pkl dir" "scaler p \<noteq> None"
      "logistic_regression p = logistic_regression_pkl dir" "logistic_regression p \<noteq> None"
      "knn p = knn_pkl dir" "knn p \<noteq> None" "model_metadata_json dir = Some (metadata p)"
    by (auto simp: ModelPredictor_load_def ModelPredictor_init_def Let_def split: option.splits)
next
  assume "first_missing dir = None"
  then show "\<exists>p. load_models dir = Inr p"
    by (auto simp: first_missing_def load_models_def ModelPredictor_load_def
          ModelPredictor_init_def Let_def split: if_splits)
qed

theorem load_fails_on_missing_witness:
  "absent (sample_dir\<lparr> knn_pkl := None \<rparr>) KnnFile \<and>
   first_missing (sample_dir\<lparr> knn_pkl := None \<rparr>) = Some KnnFile \<and>
   load_models (sample_dir\<lparr> knn_pkl := None \<rparr>) = Inl (FileNotFoundError KnnFile) \<and>
   startup_event (sample_dir\<lparr> knn_pkl := None \<rparr>) = (Inl (FileNotFoundError KnnFile), None) \<and>
   first_missing sample_dir = None \<and>
   fst (startup_event sample_dir) = Inr ()"
  using load_fails_on_missing[of "sample_dir\<lparr> knn_pkl := None \<rparr>" KnnFile KnnFile
      sample_builtins "''t0''" "\<lparr> req_features = [], req_model_type = ''knn'' \<rparr>"
      "\<lparr> batch_data = [], batch_model_type = ''knn'' \<rparr>"]
  by (simp add: first_missing_def sample_dir_def startup_event_def load_models_def
        ModelPredictor_load_def ModelPredictor_init_def)

end
